theory Spec2Isabelle
  imports Main
begin

section \<open>Errors\<close>

text \<open>
  The exceptions that the two modules can meet, as values. \<open>ImproperlyConfigured\<close> is
  raised when a route string is malformed, \<open>RegexError\<close> (Python's \<^verbatim>\<open>re.error\<close>) when the
  regular expression of a route does not compile, \<open>Resolver404\<close> when no pattern
  matches a path, \<open>AlreadyRegistered\<close> when a model is registered twice with the
  admin site.
\<close>

datatype error = ImproperlyConfigured | RegexError | Resolver404 | AlreadyRegistered

section \<open>URL routing: \<^verbatim>\<open>voteApp/urls.py\<close>\<close>

subsection \<open>The routing primitives that \<^verbatim>\<open>urls.py\<close> imports\<close>

text \<open>
  \<^verbatim>\<open>urls.py\<close> builds its table with \<^verbatim>\<open>django.urls.path\<close>. That function belongs to the
  web framework, not to the repository; what follows is a model of its documented
  behaviour, as far as a route string of \<^verbatim>\<open>urls.py\<close> can exercise it: a route is split
  into literal text and \<^verbatim>\<open><converter:parameter>\<close> components, each converter stands for
  a regular expression, a path matches when the whole path is consumed, and the
  resolver returns the first pattern of the list that matches. Strings are byte
  strings here, so an identifier is an ASCII identifier. Python integers are unbounded,
  but the interpreter refuses to convert a decimal string of more than 4300 digits
  (its default limit), and the model does the same.
\<close>

datatype converter =
  IntConverter | PathConverter | SlugConverter | StringConverter | UUIDConverter

definition DEFAULT_CONVERTERS :: "(string \<times> converter) list" where
  "DEFAULT_CONVERTERS =
     [(''int'', IntConverter), (''path'', PathConverter), (''slug'', SlugConverter),
      (''str'', StringConverter), (''uuid'', UUIDConverter)]"

definition get_converter :: "string \<Rightarrow> converter option" where
  "get_converter raw_converter = map_of DEFAULT_CONVERTERS raw_converter"

definition digit_chars :: string where
  "digit_chars = ''0123456789''"

definition letter_chars :: string where
  "letter_chars = ''abcdefghijklmnopqrstuvwxyzABCDEFGHIJKLMNOPQRSTUVWXYZ''"

definition hex_chars :: string where
  "hex_chars = ''0123456789abcdef''"

definition whitespace :: string where
  "whitespace = [CHR '' '', CHR 0x09, CHR 0x0A, CHR 0x0D, CHR 0x0B, CHR 0x0C]"

definition isidentifier :: "string \<Rightarrow> bool" where
  "isidentifier s =
     (case s of
        [] \<Rightarrow> False
      | c # cs \<Rightarrow>
          (c \<in> set letter_chars \<or> c = CHR ''_'') \<and>
          list_all (\<lambda>d. d \<in> set letter_chars \<or> d \<in> set digit_chars \<or> d = CHR ''_'') cs)"

text \<open>
  The character class that a converter repeats one or more times: \<^verbatim>\<open>[0-9]+\<close> for
  \<^verbatim>\<open>int\<close>, \<^verbatim>\<open>[^/]+\<close> for \<^verbatim>\<open>str\<close>, \<^verbatim>\<open>[-a-zA-Z0-9_]+\<close> for \<^verbatim>\<open>slug\<close>, \<^verbatim>\<open>.+\<close> for
  \<^verbatim>\<open>path\<close> (the dot does not match a newline). The \<^verbatim>\<open>uuid\<close> converter has a fixed shape
  of 36 characters instead.
\<close>

fun char_class :: "converter \<Rightarrow> char \<Rightarrow> bool" where
  "char_class IntConverter c = (c \<in> set digit_chars)"
| "char_class StringConverter c = (c \<noteq> CHR ''/'')"
| "char_class SlugConverter c =
     (c = CHR ''-'' \<or> c \<in> set letter_chars \<or> c \<in> set digit_chars \<or> c = CHR ''_'')"
| "char_class PathConverter c = (c \<noteq> CHR 0x0A)"
| "char_class UUIDConverter c = (c \<in> set hex_chars)"

definition is_uuid :: "string \<Rightarrow> bool" where
  "is_uuid t =
     (length t = 36 \<and>
      list_all (\<lambda>i. if i \<in> set [8, 13, 18, 23] then t ! i = CHR ''-''
                     else t ! i \<in> set hex_chars) [0..<36])"

text \<open>
  The prefixes of \<open>s\<close> that the converter's regular expression can take, in the order
  in which a greedy, backtracking matcher tries them: the longest first.
\<close>

definition candidates :: "converter \<Rightarrow> string \<Rightarrow> string list" where
  "candidates conv s =
     (if conv = UUIDConverter then (if is_uuid (take 36 s) then [take 36 s] else [])
      else (let run = takeWhile (char_class conv) s
            in map (\<lambda>k. take k run) (rev [1..<Suc (length run)])))"

datatype pyval = PyInt int | PyStr string

definition digit_value :: "char \<Rightarrow> int" where
  "digit_value c = int (length (takeWhile (\<lambda>d. d \<noteq> c) digit_chars))"

definition int_of_digits :: "string \<Rightarrow> int" where
  "int_of_digits s = foldl (\<lambda>acc c. 10 * acc + digit_value c) 0 s"

text \<open>
  \<^verbatim>\<open>int(value)\<close> on a string of decimal digits: the interpreter raises \<^verbatim>\<open>ValueError\<close>
  when the string has more digits than \<^verbatim>\<open>sys.get_int_max_str_digits()\<close>, which is 4300
  unless the deployment changes it; leading zeros count. \<open>None\<close> stands for the
  \<^verbatim>\<open>ValueError\<close>.
\<close>

definition int_max_str_digits :: nat where
  "int_max_str_digits = 4300"

definition py_int :: "string \<Rightarrow> int option" where
  "py_int v = (if length v > int_max_str_digits then None else Some (int_of_digits v))"

text \<open>
  \<^verbatim>\<open>to_python\<close>: \<^verbatim>\<open>int(value)\<close> for the \<^verbatim>\<open>int\<close> converter, the text itself for the
  others (a UUID is kept as its text). \<open>None\<close> stands for a \<^verbatim>\<open>ValueError\<close>, which makes
  the pattern not match.
\<close>

fun to_python :: "converter \<Rightarrow> string \<Rightarrow> pyval option" where
  "to_python IntConverter v = map_option PyInt (py_int v)"
| "to_python conv v = Some (PyStr v)"

datatype part = Literal string | Parameter string converter

text \<open>
  One \<^verbatim>\<open><converter:parameter>\<close> component, read from the text that follows an opening
  angle bracket: the regular expression
  \<^verbatim>\<open><(?:(?P<converter>[^>:]+):)?(?P<parameter>[^>]+)>\<close>. The result is the converter
  name (if any), the parameter name and the rest of the route.
\<close>

definition take_parameter :: "string \<Rightarrow> (string \<times> string) option" where
  "take_parameter s =
     (let p = takeWhile (\<lambda>c. c \<noteq> CHR ''>'') s
      in case dropWhile (\<lambda>c. c \<noteq> CHR ''>'') s of
           [] \<Rightarrow> None
         | c # rest \<Rightarrow> if p \<noteq> [] then Some (p, rest) else None)"

definition match_component :: "string \<Rightarrow> (string option \<times> string \<times> string) option" where
  "match_component s =
     (let cv = takeWhile (\<lambda>c. c \<noteq> CHR ''>'' \<and> c \<noteq> CHR '':'') s;
          with_converter =
            (case dropWhile (\<lambda>c. c \<noteq> CHR ''>'' \<and> c \<noteq> CHR '':'') s of
               [] \<Rightarrow> None
             | c # r \<Rightarrow>
                 if c = CHR '':'' \<and> cv \<noteq> []
                 then map_option (\<lambda>(p, rest). (Some cv, p, rest)) (take_parameter r)
                 else None)
      in case with_converter of
           Some m \<Rightarrow> Some m
         | None \<Rightarrow> map_option (\<lambda>(p, rest). (None, p, rest)) (take_parameter s))"

text \<open>
  The leftmost component of a route: the text before it, the component, the rest.
\<close>

fun search_component :: "string \<Rightarrow> (string \<times> string option \<times> string \<times> string) option" where
  "search_component [] = None"
| "search_component (c # cs) =
     (case (if c = CHR ''<'' then match_component cs else None) of
        Some (cv, p, rest) \<Rightarrow> Some ([], cv, p, rest)
      | None \<Rightarrow> map_option (\<lambda>(pre, m). (c # pre, m)) (search_component cs))"

lemma take_parameter_shorter:
  "take_parameter s = Some (p, rest) \<Longrightarrow> length rest < length s"
proof -
  assume a: "take_parameter s = Some (p, rest)"
  let ?P = "\<lambda>c. c \<noteq> CHR ''>''"
  from a obtain c where d: "dropWhile ?P s = c # rest"
    by (auto simp: take_parameter_def Let_def split: list.splits if_splits)
  have "length (dropWhile ?P s) \<le> length s"
    by (rule length_dropWhile_le)
  with d show ?thesis by simp
qed

lemma match_component_shorter:
  "match_component s = Some (cv, p, rest) \<Longrightarrow> length rest < length s"
proof -
  assume a: "match_component s = Some (cv, p, rest)"
  let ?Q = "\<lambda>c. c \<noteq> CHR ''>'' \<and> c \<noteq> CHR '':''"
  from a consider
      (conv) c r where "dropWhile ?Q s = c # r" "take_parameter r = Some (p, rest)"
    | (plain) "take_parameter s = Some (p, rest)"
    by (auto simp: match_component_def Let_def split: list.splits if_splits option.splits)
  then show ?thesis
  proof cases
    case conv
    have "length (dropWhile ?Q s) \<le> length s"
      by (rule length_dropWhile_le)
    with conv(1) have "length r < length s" by simp
    with take_parameter_shorter [OF conv(2)] show ?thesis by simp
  next
    case plain
    then show ?thesis by (rule take_parameter_shorter)
  qed
qed

lemma search_component_shorter:
  "search_component s = Some (pre, cv, p, rest) \<Longrightarrow> length rest < length s"
proof (induction s arbitrary: pre)
  case Nil
  then show ?case by simp
next
  case (Cons c cs)
  show ?case
  proof (cases "if c = CHR ''<'' then match_component cs else None")
    case None
    with Cons.prems obtain pre' where "search_component cs = Some (pre', cv, p, rest)"
      by auto
    from Cons.IH [OF this] show ?thesis by simp
  next
    case (Some m)
    with Cons.prems have "match_component cs = Some (cv, p, rest)"
      by (auto split: if_splits)
    from match_component_shorter [OF this] show ?thesis by simp
  qed
qed

text \<open>
  \<^verbatim>\<open>_route_to_regex\<close>: the loop that cuts a route into its parts. It raises
  \<^verbatim>\<open>ImproperlyConfigured\<close> for whitespace inside angle brackets, for a parameter that is
  not an identifier and for an unknown converter; a component without a converter
  uses \<^verbatim>\<open>str\<close>.
\<close>

function route_to_parts :: "string \<Rightarrow> error + part list" where
  "route_to_parts route =
     (case search_component route of
        None \<Rightarrow> Inr [Literal route]
      | Some (pre, cv, parameter, rest) \<Rightarrow>
          if list_ex (\<lambda>c. c \<in> set whitespace) ((case cv of None \<Rightarrow> [] | Some r \<Rightarrow> r) @ parameter)
          then Inl ImproperlyConfigured
          else if \<not> isidentifier parameter then Inl ImproperlyConfigured
          else (case get_converter (case cv of None \<Rightarrow> ''str'' | Some r \<Rightarrow> r) of
                  None \<Rightarrow> Inl ImproperlyConfigured
                | Some conv \<Rightarrow>
                    (case route_to_parts rest of
                       Inl e \<Rightarrow> Inl e
                     | Inr ps \<Rightarrow> Inr (Literal pre # Parameter parameter conv # ps))))"
  by pat_completeness auto
termination
  by (relation "measure length") (auto dest: search_component_shorter)

declare route_to_parts.simps [simp del]

text \<open>
  Matching the regular expression of a route against a whole path (the expression is
  anchored at both ends, since every route of \<^verbatim>\<open>path\<close> is an endpoint). The result is
  the dictionary of named groups, in the order of the route.
\<close>

fun match_parts :: "part list \<Rightarrow> string \<Rightarrow> (string \<times> converter \<times> string) list option" where
  "match_parts [] s = (if s = [] then Some [] else None)"
| "match_parts (Literal l # ps) s =
     (if take (length l) s = l then match_parts ps (drop (length l) s) else None)"
| "match_parts (Parameter n conv # ps) s =
     (case List.map_filter
             (\<lambda>v. map_option (\<lambda>groups. (n, conv, v) # groups)
                     (match_parts ps (drop (length v) s)))
             (candidates conv s) of
        [] \<Rightarrow> None
      | groups # _ \<Rightarrow> Some groups)"

text \<open>
  The converted keyword arguments: every group through \<^verbatim>\<open>to_python\<close> of its
  converter; one \<^verbatim>\<open>ValueError\<close> and the pattern does not match.
\<close>

fun convert_groups :: "(string \<times> converter \<times> string) list \<Rightarrow> (string \<times> pyval) list option" where
  "convert_groups [] = Some []"
| "convert_groups ((n, conv, v) # gs) =
     (case to_python conv v of
        None \<Rightarrow> None
      | Some x \<Rightarrow> map_option (\<lambda>kw. (n, x) # kw) (convert_groups gs))"

text \<open>
  The view functions of \<^verbatim>\<open>voteApp/views.py\<close>, which the source does not contain: the
  routing table only names them.
\<close>

datatype view = index | detail | results | vote | home

record url_pattern =
  route :: string
  parts :: "part list"
  callback :: view
  name :: string

record resolver_match =
  func :: view
  kwargs :: "(string \<times> pyval) list"
  url_name :: string

fun parameter_names :: "part list \<Rightarrow> string list" where
  "parameter_names [] = []"
| "parameter_names (Literal l # ps) = parameter_names ps"
| "parameter_names (Parameter n conv # ps) = n # parameter_names ps"

text \<open>
  \<^verbatim>\<open>path(route, view, name=...)\<close> parses the route and builds the pattern; the regular
  expression is compiled later, when the pattern is first matched.
\<close>

definition path :: "string \<Rightarrow> view \<Rightarrow> string \<Rightarrow> error + url_pattern" where
  "path r v n =
     (case route_to_parts r of
        Inl e \<Rightarrow> Inl e
      | Inr ps \<Rightarrow> Inr \<lparr>route = r, parts = ps, callback = v, name = n\<rparr>)"

text \<open>
  \<^verbatim>\<open>RoutePattern.match\<close>: a parameter name used twice is a group name defined twice, so
  the regular expression does not compile and the match raises \<^verbatim>\<open>re.error\<close>.
  Otherwise the result is \<open>None\<close> when the path does not match and the keyword
  arguments when it does.
\<close>

definition pattern_match :: "url_pattern \<Rightarrow> string \<Rightarrow> error + (string \<times> pyval) list option" where
  "pattern_match u p =
     (if \<not> distinct (parameter_names (parts u)) then Inl RegexError
      else case match_parts (parts u) p of
             None \<Rightarrow> Inr None
           | Some groups \<Rightarrow> Inr (convert_groups groups))"

text \<open>
  The resolver tries the patterns in the order of the list and returns the first
  match; \<^verbatim>\<open>Resolver404\<close> when there is none. An exception of a match ends the
  resolution.
\<close>

fun resolve_patterns :: "url_pattern list \<Rightarrow> string \<Rightarrow> error + resolver_match" where
  "resolve_patterns [] p = Inl Resolver404"
| "resolve_patterns (u # us) p =
     (case pattern_match u p of
        Inl e \<Rightarrow> Inl e
      | Inr (Some kw) \<Rightarrow> Inr \<lparr>func = callback u, kwargs = kw, url_name = name u\<rparr>
      | Inr None \<Rightarrow> resolve_patterns us p)"

text \<open>
  A Python list display evaluates its elements from left to right; the first
  exception ends the evaluation.
\<close>

fun collect :: "(error + 'a) list \<Rightarrow> error + 'a list" where
  "collect [] = Inr []"
| "collect (x # xs) =
     (case x of
        Inl e \<Rightarrow> Inl e
      | Inr y \<Rightarrow> (case collect xs of Inl e \<Rightarrow> Inl e | Inr ys \<Rightarrow> Inr (y # ys)))"

subsection \<open>The module \<^verbatim>\<open>voteApp/urls.py\<close>\<close>

definition app_name :: string where
  "app_name = ''polls''"

definition urlpatterns :: "error + url_pattern list" where
  "urlpatterns =
     collect
       [path '''' index ''index'',
        path ''<int:question_id>/'' detail ''detail'',
        path ''<int:question_id>/results/'' results ''results'',
        path ''<int:question_id>/vote/'' vote ''vote'',
        path '''' home ''home'']"

text \<open>
  Resolution of a path against the table of this module. The path is what is left of
  the request path after the prefix under which the project includes the module, so
  the root of the application is the empty path.
\<close>

definition resolve :: "string \<Rightarrow> error + resolver_match" where
  "resolve p = (case urlpatterns of Inl e \<Rightarrow> Inl e | Inr us \<Rightarrow> resolve_patterns us p)"



definition first_segment :: "string \<Rightarrow> string" where
  "first_segment p = takeWhile (\<lambda>c. c \<noteq> CHR ''/'') p"

definition is_decimal :: "string \<Rightarrow> bool" where
  "is_decimal s = (s \<noteq> [] \<and> list_all (\<lambda>c. c \<in> set digit_chars) s)"

section \<open>Admin configuration: \<^verbatim>\<open>voteApp/admin.py\<close>\<close>

subsection \<open>The admin primitives that \<^verbatim>\<open>admin.py\<close> imports\<close>

text \<open>
  \<^verbatim>\<open>admin.py\<close> subclasses \<^verbatim>\<open>admin.TabularInline\<close> and \<^verbatim>\<open>admin.ModelAdmin\<close> and calls
  \<^verbatim>\<open>admin.site.register\<close>. These belong to the framework too. A class is a record of
  its attributes; a base class is the record of the framework's defaults, and a
  subclass is the base record with the attributes of the class body replaced.
  The model classes come from \<^verbatim>\<open>voteApp/models.py\<close>, which the source does not contain:
  a model is known by its name only.
\<close>

type_synonym model_class = string

record inline_model_admin =
  template :: string
  model :: "model_class option"
  extra :: int
  min_num :: "int option"
  max_num :: "int option"
  fields' :: "string list option"

definition TabularInline :: inline_model_admin where
  "TabularInline =
     \<lparr>template = ''admin/edit_inline/tabular.html'', model = None, extra = 3,
      min_num = None, max_num = None, fields' = None\<rparr>"

text \<open>
  A fieldset is a pair of an optional title and a dictionary of options; the
  dictionary keeps the order of the source.
\<close>

type_synonym fieldset = "string option \<times> (string \<times> string list) list"

record model_admin =
  fieldsets :: "fieldset list option"
  inlines :: "inline_model_admin list"
  list_display :: "string list"
  list_filter :: "string list"
  search_fields :: "string list"

definition ModelAdmin :: model_admin where
  "ModelAdmin =
     \<lparr>fieldsets = None, inlines = [], list_display = [''__str__''], list_filter = [],
      search_fields = []\<rparr>"

record admin_site =
  site_header :: string
  site_title :: string
  index_title :: string
  registry :: "model_class \<rightharpoonup> model_admin"

definition AdminSite :: admin_site where
  "AdminSite =
     \<lparr>site_header = ''Django administration'', site_title = ''Django site admin'',
      index_title = ''Site administration'', registry = Map.empty\<rparr>"

text \<open>
  \<^verbatim>\<open>site.register(model, admin_class)\<close>: a model that is registered already raises
  \<^verbatim>\<open>AlreadyRegistered\<close>; otherwise the registry gets the entry. (Both models of this
  application are concrete and not swapped, so the other two branches of the
  framework's method do not arise.)
\<close>

definition register :: "model_class \<Rightarrow> model_admin \<Rightarrow> admin_site \<Rightarrow> error + admin_site" where
  "register m admin_class site =
     (if m \<in> dom (registry site) then Inl AlreadyRegistered
      else Inr (site\<lparr>registry := (registry site)(m \<mapsto> admin_class)\<rparr>))"

text \<open>
  The number of forms of an unbound formset (\<^verbatim>\<open>BaseFormSet.total_form_count\<close>): the
  existing objects, at least \<^verbatim>\<open>min_num\<close>, plus \<^verbatim>\<open>extra\<close>; all existing objects are
  shown, but nothing extra beyond \<^verbatim>\<open>max_num\<close>.
\<close>

definition DEFAULT_MIN_NUM :: int where
  "DEFAULT_MIN_NUM = 0"

definition DEFAULT_MAX_NUM :: int where
  "DEFAULT_MAX_NUM = 1000"

definition total_form_count :: "int \<Rightarrow> int \<Rightarrow> int \<Rightarrow> int \<Rightarrow> int" where
  "total_form_count extra_forms min_forms max_forms initial_forms =
     (let total_forms = max initial_forms min_forms + extra_forms
      in if initial_forms > max_forms \<and> max_forms \<ge> 0 then initial_forms
         else if total_forms > max_forms \<and> max_forms \<ge> 0 then max_forms
         else total_forms)"

text \<open>
  The formset that the admin builds for an inline on the change form of a parent that
  owns \<open>owned\<close> objects: an unset \<^verbatim>\<open>min_num\<close> or \<^verbatim>\<open>max_num\<close> takes the framework's
  default, and a unique foreign key allows one object only; \<^verbatim>\<open>get_extra\<close> is not
  overridden and returns the attribute \<^verbatim>\<open>extra\<close>. The result is the number of empty
  forms after the forms of the existing objects. Permissions are not modelled: the
  user may add, change and delete.
\<close>

definition extra_forms_displayed :: "inline_model_admin \<Rightarrow> bool \<Rightarrow> nat \<Rightarrow> int" where
  "extra_forms_displayed inline fk_unique owned =
     (let min_forms = (case min_num inline of None \<Rightarrow> DEFAULT_MIN_NUM | Some m \<Rightarrow> m);
          max_forms =
            (if fk_unique then 1
             else case max_num inline of None \<Rightarrow> DEFAULT_MAX_NUM | Some m \<Rightarrow> m)
      in total_form_count (extra inline) min_forms max_forms (int owned)
           - int owned)"

subsection \<open>The module \<^verbatim>\<open>voteApp/admin.py\<close>\<close>

definition Question :: model_class where
  "Question = ''Question''"

definition Choice :: model_class where
  "Choice = ''Choice''"

definition Choice_question_unique :: bool where
  \<comment> \<open>Modelled from the spec: \<^verbatim>\<open>models.py\<close>, which declares the foreign key from Choice to
     Question, is missing; the glossary says that a Question owns zero or more
     Choices, so the key is not unique.\<close>
  "Choice_question_unique = False"

definition ChoiceInline :: inline_model_admin where
  "ChoiceInline =
     TabularInline
       \<lparr>model := Some Choice,
        extra := 3,
        fields' := Some [''choice_text'', ''image'', ''votes'']\<rparr>"

definition QuestionAdmin :: model_admin where
  "QuestionAdmin =
     ModelAdmin
       \<lparr>fieldsets :=
          Some [(None, [(''fields'', [''question_text''])]),
                (Some ''Date Information'',
                 [(''fields'', [''pub_date'']), (''classes'', [''collapse''])])],
        inlines := [ChoiceInline],
        list_display := [''question_text'', ''pub_date'', ''was_published_recently''],
        list_filter := [''pub_date''],
        search_fields := [''question_text'']\<rparr>"

definition ChoiceAdmin :: model_admin where
  "ChoiceAdmin =
     ModelAdmin
       \<lparr>list_display := [''choice_text'', ''question'', ''image'', ''votes''],
        list_filter := [''question''],
        search_fields := [''choice_text'']\<rparr>"

text \<open>
  The statements of the module, run on the admin site as it stands when the module is
  imported: three assignments to the site and two registrations.
\<close>

definition admin_py :: "admin_site \<Rightarrow> error + admin_site" where
  "admin_py site0 =
     (let site1 = site0\<lparr>site_header := ''St. Francis School Student Council Elections''\<rparr>;
          site2 = site1\<lparr>site_title := ''Voting Admin Portal''\<rparr>;
          site3 = site2\<lparr>index_title := ''Welcome to the Voting Admin Area''\<rparr>
      in case register Question QuestionAdmin site3 of
           Inl e \<Rightarrow> Inl e
         | Inr site4 \<Rightarrow> register Choice ChoiceAdmin site4)"

section \<open>What the two modules contain\<close>








section \<open>Properties of the routing table\<close>

subsection \<open>The table and the matcher, evaluated\<close>

lemma urlpatterns_eval:
  "urlpatterns =
     Inr [\<lparr>route = '''', parts = [Literal ''''], callback = index, name = ''index''\<rparr>,
          \<lparr>route = ''<int:question_id>/'',
             parts = [Literal '''', Parameter ''question_id'' IntConverter, Literal ''/''],
             callback = detail, name = ''detail''\<rparr>,
          \<lparr>route = ''<int:question_id>/results/'',
             parts = [Literal '''', Parameter ''question_id'' IntConverter, Literal ''/results/''],
             callback = results, name = ''results''\<rparr>,
          \<lparr>route = ''<int:question_id>/vote/'',
             parts = [Literal '''', Parameter ''question_id'' IntConverter, Literal ''/vote/''],
             callback = vote, name = ''vote''\<rparr>,
          \<lparr>route = '''', parts = [Literal ''''], callback = home, name = ''home''\<rparr>]"
  by code_simp

lemma map_filter_empty: "List.map_filter f xs = [] \<longleftrightarrow> (\<forall>x \<in> set xs. f x = None)"
  by (induction xs) (auto simp: List.map_filter_simps split: option.splits)

lemma candidates_int:
  "candidates IntConverter s =
     (let run = takeWhile (\<lambda>c. c \<in> set digit_chars) s
      in if run = [] then [] else run # map (\<lambda>k. take k run) (rev [1..<length run]))"
proof -
  let ?run = "takeWhile (\<lambda>c. c \<in> set digit_chars) s"
  have cc: "char_class IntConverter = (\<lambda>c. c \<in> set digit_chars)"
    by (rule ext) simp
  show ?thesis
  proof (cases "?run = []")
    case True
    then show ?thesis by (simp add: candidates_def cc)
  next
    case False
    then have "1 \<le> length ?run" by (cases ?run) auto
    then have "[1..<Suc (length ?run)] = [1..<length ?run] @ [length ?run]"
      by simp
    with False show ?thesis by (simp add: candidates_def cc Let_def)
  qed
qed

lemma match_literal_end: "match_parts [Literal l] t = (if t = l then Some [] else None)"
proof (cases "t = l")
  case True
  then show ?thesis by simp
next
  case False
  have "\<not> (take (length l) t = l \<and> drop (length l) t = [])"
  proof
    assume a: "take (length l) t = l \<and> drop (length l) t = []"
    have "t = take (length l) t @ drop (length l) t" by simp
    with a have "t = l" by simp
    with False show False by simp
  qed
  with False show ?thesis by auto
qed

lemma slash_not_digit: "CHR ''/'' \<notin> set digit_chars"
  by (simp add: digit_chars_def)

lemma short_candidate_fails:
  assumes k: "k < length (takeWhile (\<lambda>c. c \<in> set digit_chars) s)"
  shows "drop k s \<noteq> CHR ''/'' # l"
proof
  let ?P = "\<lambda>c. c \<in> set digit_chars"
  assume d: "drop k s = CHR ''/'' # l"
  have ks: "k < length s"
    using k length_takeWhile_le [of ?P s] by simp
  have "s ! k = takeWhile ?P s ! k"
    using k by (simp add: takeWhile_nth)
  moreover have "takeWhile ?P s ! k \<in> set (takeWhile ?P s)"
    using k by simp
  ultimately have "?P (s ! k)"
    by (auto dest: set_takeWhileD)
  moreover have "s ! k = hd (drop k s)"
    using ks by (simp add: hd_drop_conv_nth)
  ultimately show False
    using d slash_not_digit by simp
qed

lemma match_int_route:
  "match_parts [Literal [], Parameter n IntConverter, Literal (CHR ''/'' # l)] s =
     (if takeWhile (\<lambda>c. c \<in> set digit_chars) s \<noteq> [] \<and>
         dropWhile (\<lambda>c. c \<in> set digit_chars) s = CHR ''/'' # l
      then Some [(n, IntConverter, takeWhile (\<lambda>c. c \<in> set digit_chars) s)]
      else None)"
proof -
  let ?P = "\<lambda>c. c \<in> set digit_chars"
  let ?run = "takeWhile ?P s"
  let ?f = "\<lambda>v. map_option (\<lambda>groups. (n, IntConverter, v) # groups)
                 (match_parts [Literal (CHR ''/'' # l)] (drop (length v) s))"
  let ?short = "map (\<lambda>k. take k ?run) (rev [1..<length ?run])"
  have short: "List.map_filter ?f ?short = []"
    unfolding map_filter_empty
  proof
    fix v assume "v \<in> set ?short"
    then obtain k where k: "k < length ?run" and v: "v = take k ?run"
      by auto
    from k have "length v = k" by (simp add: v)
    with short_candidate_fails [OF k] show "?f v = None"
      by (simp add: match_literal_end)
  qed
  have full: "drop (length ?run) s = dropWhile ?P s"
    by (simp add: dropWhile_eq_drop)
  show ?thesis
  proof (cases "?run = []")
    case True
    then show ?thesis by (simp add: candidates_int)
  next
    case False
    then show ?thesis
      using short full
      by (simp add: candidates_int Let_def List.map_filter_simps match_literal_end
            del: upt_Suc)
  qed
qed

lemma pattern_match_int_route:
  assumes "parts u = [Literal [], Parameter n IntConverter, Literal (CHR ''/'' # l)]"
  shows "pattern_match u p =
     (if takeWhile (\<lambda>c. c \<in> set digit_chars) p \<noteq> [] \<and>
         dropWhile (\<lambda>c. c \<in> set digit_chars) p = CHR ''/'' # l \<and>
         length (takeWhile (\<lambda>c. c \<in> set digit_chars) p) \<le> int_max_str_digits
      then Inr (Some [(n, PyInt (int_of_digits (takeWhile (\<lambda>c. c \<in> set digit_chars) p)))])
      else Inr None)"
  unfolding pattern_match_def assms match_int_route by (simp add: py_int_def)

lemma pattern_match_empty_route:
  assumes "parts u = [Literal []]"
  shows "pattern_match u p = (if p = [] then Inr (Some []) else Inr None)"
  unfolding pattern_match_def assms match_literal_end by simp

lemma resolve_eq:
  "resolve p =
     (if p = [] then Inr \<lparr>func = index, kwargs = [], url_name = ''index''\<rparr>
      else if takeWhile (\<lambda>c. c \<in> set digit_chars) p = [] \<or>
              int_max_str_digits < length (takeWhile (\<lambda>c. c \<in> set digit_chars) p)
      then Inl Resolver404
      else if dropWhile (\<lambda>c. c \<in> set digit_chars) p = ''/''
      then Inr \<lparr>func = detail,
                kwargs = [(''question_id'',
                           PyInt (int_of_digits (takeWhile (\<lambda>c. c \<in> set digit_chars) p)))],
                url_name = ''detail''\<rparr>
      else if dropWhile (\<lambda>c. c \<in> set digit_chars) p = ''/results/''
      then Inr \<lparr>func = results,
                kwargs = [(''question_id'',
                           PyInt (int_of_digits (takeWhile (\<lambda>c. c \<in> set digit_chars) p)))],
                url_name = ''results''\<rparr>
      else if dropWhile (\<lambda>c. c \<in> set digit_chars) p = ''/vote/''
      then Inr \<lparr>func = vote,
                kwargs = [(''question_id'',
                           PyInt (int_of_digits (takeWhile (\<lambda>c. c \<in> set digit_chars) p)))],
                url_name = ''vote''\<rparr>
      else Inl Resolver404)"
  by (simp add: resolve_def urlpatterns_eval pattern_match_int_route pattern_match_empty_route)

subsection \<open>Decimal numerals\<close>









lemma decimal_first_segment:
  assumes run: "takeWhile (\<lambda>c. c \<in> set digit_chars) p \<noteq> []"
    and rest: "dropWhile (\<lambda>c. c \<in> set digit_chars) p = CHR ''/'' # l"
  shows "is_decimal (first_segment p)"
proof -
  let ?D = "\<lambda>c. c \<in> set digit_chars"
  have p: "p = takeWhile ?D p @ CHR ''/'' # l"
    using takeWhile_dropWhile_id [of ?D p] rest by simp
  have dig: "\<And>c. c \<in> set (takeWhile ?D p) \<Longrightarrow> c \<in> set digit_chars"
    by (auto dest: set_takeWhileD)
  then have "\<And>c. c \<in> set (takeWhile ?D p) \<Longrightarrow> c \<noteq> CHR ''/''"
    using slash_not_digit by auto
  then have "takeWhile (\<lambda>c. c \<noteq> CHR ''/'') (takeWhile ?D p @ CHR ''/'' # l) = takeWhile ?D p"
    by (simp add: takeWhile_append2)
  with p have "first_segment p = takeWhile ?D p"
    by (simp add: first_segment_def)
  with run dig show ?thesis
    by (simp add: is_decimal_def list_all_iff)
qed

subsection \<open>Claims about the routing table\<close>

text \<open>
  Claim C1. The module declares exactly five routes, in this order: the empty route to
  \<open>index\<close> (named index), \<^verbatim>\<open><int:question_id>/\<close> to \<open>detail\<close>,
  \<^verbatim>\<open><int:question_id>/results/\<close> to \<open>results\<close>, \<^verbatim>\<open><int:question_id>/vote/\<close> to
  \<open>vote\<close>, and the empty route again to \<open>home\<close> (named home); the application
  namespace is polls. Every route is well formed, so building the table raises
  nothing.
\<close>

theorem urlpatterns_five_routes:
  "app_name = ''polls'' \<and>
   (\<exists>us. urlpatterns = Inr us \<and>
      map (\<lambda>u. (route u, callback u, name u)) us =
        [('''', index, ''index''),
         (''<int:question_id>/'', detail, ''detail''),
         (''<int:question_id>/results/'', results, ''results''),
         (''<int:question_id>/vote/'', vote, ''vote''),
         ('''', home, ''home'')])"
  by (simp add: app_name_def urlpatterns_eval)

text \<open>
  Claim C2. The first and the last route both bind the empty path. The resolver
  returns the first match, so the empty path goes to \<open>index\<close>, and no path at all
  is resolved to \<open>home\<close>.
\<close>

theorem root_is_index_home_unreachable:
  "resolve '''' = Inr \<lparr>func = index, kwargs = [], url_name = ''index''\<rparr> \<and>
   (\<forall>p r. resolve p = Inr r \<longrightarrow> func r \<noteq> home \<and> url_name r \<noteq> ''home'')"
proof (intro conjI allI impI)
  show "resolve '''' = Inr \<lparr>func = index, kwargs = [], url_name = ''index''\<rparr>"
    by (simp add: resolve_eq)
next
  fix p r
  assume "resolve p = Inr r"
  then have "func r \<in> {index, detail, results, vote} \<and>
             url_name r \<in> {''index'', ''detail'', ''results'', ''vote''}"
    unfolding resolve_eq [of p] by (auto split: if_splits)
  then show "func r \<noteq> home" and "url_name r \<noteq> ''home''"
    by auto
qed

theorem root_is_index_home_unreachable_witness:
  "\<exists>r. resolve ''12/vote/'' = Inr r \<and> func r \<noteq> home \<and> url_name r \<noteq> ''home''"
proof -
  have "resolve ''12/vote/'' =
      Inr \<lparr>func = vote, kwargs = [(''question_id'', PyInt 12)], url_name = ''vote''\<rparr>"
    by code_simp
  then obtain r where r: "resolve ''12/vote/'' = Inr r"
    by blast
  with root_is_index_home_unreachable have "func r \<noteq> home \<and> url_name r \<noteq> ''home''"
    by blast
  with r show ?thesis
    by blast
qed

text \<open>
  Claim C9. Resolution is a total function of the path, and a path whose first segment
  (the text before the first slash) is not a non-empty string of decimal digits is
  matched by none of the patterns of \<open>detail\<close>, \<open>results\<close> and \<open>vote\<close>: each of
  them answers \<open>None\<close> (the value \<open>Inr None\<close>), no exception. Such a path resolves
  to \<open>index\<close> when it is empty and to \<^verbatim>\<open>Resolver404\<close> otherwise.
\<close>

theorem int_routes_reject_non_integer:
  assumes "\<not> is_decimal (first_segment p)"
  shows "\<exists>us. urlpatterns = Inr us \<and>
           (\<forall>u \<in> set us. callback u \<in> {detail, results, vote} \<longrightarrow> pattern_match u p = Inr None) \<and>
           resolve p =
             (if p = [] then Inr \<lparr>func = index, kwargs = [], url_name = ''index''\<rparr>
              else Inl Resolver404)"
proof -
  let ?D = "\<lambda>c. c \<in> set digit_chars"
  have no: "\<And>l. \<not> (takeWhile ?D p \<noteq> [] \<and> dropWhile ?D p = CHR ''/'' # l)"
    using assms decimal_first_segment by blast
  have m: "\<And>u n l. parts u = [Literal [], Parameter n IntConverter, Literal (CHR ''/'' # l)]
              \<Longrightarrow> pattern_match u p = Inr None"
    using no by (auto simp: pattern_match_int_route)
  have r: "resolve p =
             (if p = [] then Inr \<lparr>func = index, kwargs = [], url_name = ''index''\<rparr>
              else Inl Resolver404)"
    unfolding resolve_eq [of p] using no by auto
  show ?thesis
    unfolding urlpatterns_eval using r by (simp add: m)
qed

theorem int_routes_reject_non_integer_witness:
  "\<not> is_decimal (first_segment ''abc/results/'') \<and>
   resolve ''abc/results/'' = Inl Resolver404 \<and>
   \<not> is_decimal (first_segment ''-1/vote/'') \<and>
   resolve ''-1/vote/'' = Inl Resolver404"
proof -
  have a: "\<not> is_decimal (first_segment ''abc/results/'')"
    by (simp add: is_decimal_def first_segment_def digit_chars_def)
  have b: "\<not> is_decimal (first_segment ''-1/vote/'')"
    by (simp add: is_decimal_def first_segment_def digit_chars_def)
  from int_routes_reject_non_integer [OF a] int_routes_reject_non_integer [OF b] a b
  show ?thesis by auto
qed

section \<open>Properties of the admin configuration\<close>

text \<open>
  Claim C3. Run on a site that knows neither model yet, the module ends without an
  exception and registers exactly two models: Question with \<open>QuestionAdmin\<close> and
  Choice with \<open>ChoiceAdmin\<close>. Every other entry of the registry is as it was.
\<close>

theorem admin_py_registers_two_models:
  assumes "Question \<notin> dom (registry site)" and "Choice \<notin> dom (registry site)"
  shows "\<exists>site'. admin_py site = Inr site' \<and>
           registry site' = (registry site)(Question \<mapsto> QuestionAdmin, Choice \<mapsto> ChoiceAdmin) \<and>
           dom (registry site') - dom (registry site) = {Question, Choice}"
  using assms
  by (auto simp: admin_py_def register_def Let_def Question_def Choice_def)

theorem admin_py_registers_two_models_witness:
  "\<exists>site'. admin_py AdminSite = Inr site' \<and>
     registry site' Question = Some QuestionAdmin \<and>
     registry site' Choice = Some ChoiceAdmin \<and>
     dom (registry site') = {Question, Choice}"
proof -
  have a: "Question \<notin> dom (registry AdminSite)" and b: "Choice \<notin> dom (registry AdminSite)"
    by (simp_all add: AdminSite_def)
  have "Question \<noteq> Choice" by (simp add: Question_def Choice_def)
  moreover have "dom (registry AdminSite) = {}" by (simp add: AdminSite_def)
  ultimately show ?thesis
    using admin_py_registers_two_models [OF a b] by auto
qed

text \<open>
  Claim C4. The list columns of \<open>ChoiceAdmin\<close> are exactly \<^verbatim>\<open>choice_text\<close>, question,
  image and votes; the fields of the inline editor are exactly \<^verbatim>\<open>choice_text\<close>, image and
  votes.
\<close>

theorem ChoiceAdmin_columns_and_inline_fields:
  "list_display ChoiceAdmin = [''choice_text'', ''question'', ''image'', ''votes''] \<and>
   fields' ChoiceInline = Some [''choice_text'', ''image'', ''votes'']"
  by (simp add: ChoiceAdmin_def ChoiceInline_def)

text \<open>
  Claim C5. The fieldsets of \<open>QuestionAdmin\<close> put \<^verbatim>\<open>question_text\<close> in a section without
  a title and \<^verbatim>\<open>pub_date\<close> in a section titled Date Information with the class collapse;
  its list columns are exactly \<^verbatim>\<open>question_text\<close>, \<^verbatim>\<open>pub_date\<close> and \<^verbatim>\<open>was_published_recently\<close>.
\<close>

theorem QuestionAdmin_fieldsets_and_columns:
  "fieldsets QuestionAdmin =
     Some [(None, [(''fields'', [''question_text''])]),
           (Some ''Date Information'',
            [(''fields'', [''pub_date'']), (''classes'', [''collapse''])])] \<and>
   list_display QuestionAdmin = [''question_text'', ''pub_date'', ''was_published_recently'']"
  by (simp add: QuestionAdmin_def)

text \<open>
  Claim C6. The inlines of \<open>QuestionAdmin\<close> are exactly \<open>ChoiceInline\<close>, which is a
  tabular inline (it has the template of \<open>TabularInline\<close>) whose model is Choice.
\<close>

theorem QuestionAdmin_inlines:
  "inlines QuestionAdmin = [ChoiceInline] \<and>
   template ChoiceInline = template TabularInline \<and>
   template ChoiceInline = ''admin/edit_inline/tabular.html'' \<and>
   model ChoiceInline = Some Choice"
  by (simp add: QuestionAdmin_def ChoiceInline_def TabularInline_def)

text \<open>
  Claim C8. \<open>QuestionAdmin\<close> filters on \<^verbatim>\<open>pub_date\<close> and searches on \<^verbatim>\<open>question_text\<close>;
  \<open>ChoiceAdmin\<close> filters on question and searches on \<^verbatim>\<open>choice_text\<close>; no other filter
  or search field is declared.
\<close>

theorem filter_and_search_fields:
  "list_filter QuestionAdmin = [''pub_date''] \<and>
   search_fields QuestionAdmin = [''question_text''] \<and>
   list_filter ChoiceAdmin = [''question''] \<and>
   search_fields ChoiceAdmin = [''choice_text'']"
  by (simp add: QuestionAdmin_def ChoiceAdmin_def)

text \<open>
  Claim C10, as stated: the inline editor shows exactly 3 extra empty forms however
  many Choices the Question owns. \<open>ChoiceInline\<close> leaves \<^verbatim>\<open>max_num\<close> unset, so the
  formset is built with the framework's default of 1000 forms, and nothing extra is
  shown beyond it: a Question that owns 999 Choices gets one empty form.
\<close>

theorem extra_forms_capped_counterexample:
  "\<not> (\<forall>owned. extra_forms_displayed ChoiceInline Choice_question_unique owned = 3)"
proof
  assume "\<forall>owned. extra_forms_displayed ChoiceInline Choice_question_unique owned = 3"
  then have "extra_forms_displayed ChoiceInline Choice_question_unique 999 = 3" by blast
  moreover have "extra_forms_displayed ChoiceInline Choice_question_unique 999 = 1"
    by (simp add: extra_forms_displayed_def total_form_count_def
          ChoiceInline_def TabularInline_def Choice_question_unique_def
          DEFAULT_MIN_NUM_def DEFAULT_MAX_NUM_def)
  ultimately show False by simp
qed

text \<open>
  Claim C10, amended. \<open>ChoiceInline.extra\<close> is 3, and the inline editor shows exactly
  3 extra empty forms for every Question that owns at most 997 Choices, when the
  change form is first rendered for a user who may add Choices.
\<close>

theorem ChoiceInline_three_extra_forms:
  "extra ChoiceInline = 3 \<and>
   (owned \<le> 997 \<longrightarrow> extra_forms_displayed ChoiceInline Choice_question_unique owned = 3)"
  by (simp add: extra_forms_displayed_def total_form_count_def
        ChoiceInline_def TabularInline_def Choice_question_unique_def
        DEFAULT_MIN_NUM_def DEFAULT_MAX_NUM_def)

theorem ChoiceInline_three_extra_forms_witness:
  "extra_forms_displayed ChoiceInline Choice_question_unique 0 = 3 \<and>
   extra_forms_displayed ChoiceInline Choice_question_unique 997 = 3"
  using ChoiceInline_three_extra_forms [of 0] ChoiceInline_three_extra_forms [of 997]
  by simp

section \<open>The surface of the vote tally\<close>







end
